theory Spec2Isabelle
  imports Complex_Main "HOL-Library.Sublist"
begin

section \<open>The service worker \<open>sw.js\<close>: data\<close>

text \<open>
  The worker is a set of event listeners over the host's built-in cache store, fetch
  primitive and lifecycle calls.  The listeners are embedded as functions over an explicit
  host: what the network and the fallible cache operations answer is a parameter, the
  contents of the cache store are state, and every host call a listener makes is logged in
  the order it is made.
\<close>

subsection \<open>JavaScript values\<close>

text \<open>
  The values a message or a parsed push payload can hold.  A number is the parsed value;
  only its being zero is ever inspected.  An object is its own properties in order.
\<close>

datatype jsval =
    JUndefined
  | JNull
  | JBool bool
  | JNum rat
  | JStr string
  | JArr "jsval list"
  | JObj "(string \<times> jsval) list"

text \<open>
  What a listener can throw, or a promise reject with.  \<open>NetworkError\<close> is the rejection
  of \<open>fetch\<close> and \<open>CacheError\<close> the rejection of a cache operation; \<open>TypeError\<close> is a
  property read on \<open>null\<close> or \<open>undefined\<close>, \<open>SyntaxError\<close> is \<open>json()\<close> on a payload that
  is not JSON.
\<close>

datatype js_error = NetworkError | CacheError | TypeError | SyntaxError

text \<open>JavaScript's truthiness, as \<open>&&\<close>, \<open>||\<close> and \<open>?:\<close> test it.\<close>

fun truthy :: "jsval \<Rightarrow> bool" where
  "truthy JUndefined = False"
| "truthy JNull = False"
| "truthy (JBool b) = b"
| "truthy (JNum n) = (n \<noteq> 0)"
| "truthy (JStr s) = (s \<noteq> [])"
| "truthy (JArr xs) = True"
| "truthy (JObj kvs) = True"

text \<open>
  \<open>v.k\<close> for a property name \<open>k\<close> that no built-in prototype defines (the worker reads
  \<open>type\<close>, \<open>title\<close>, \<open>body\<close>, \<open>tag\<close>, \<open>requireInteraction\<close> and \<open>data\<close>): the own
  property of an object, \<open>undefined\<close> on every other value but \<open>null\<close> and \<open>undefined\<close>,
  where the read throws.
\<close>

fun prop_get :: "jsval \<Rightarrow> string \<Rightarrow> js_error + jsval" where
  "prop_get JUndefined k = Inl TypeError"
| "prop_get JNull k = Inl TypeError"
| "prop_get (JObj kvs) k = (case map_of kvs k of None \<Rightarrow> Inr JUndefined | Some v \<Rightarrow> Inr v)"
| "prop_get v k = Inr JUndefined"

text \<open>\<open>a || b\<close> on values.\<close>

definition or_else :: "jsval \<Rightarrow> jsval \<Rightarrow> jsval" where
  "or_else a b = (if truthy a then a else b)"

subsection \<open>Strings\<close>

text \<open>\<open>s.startsWith(p)\<close> and \<open>s.includes(sub)\<close>.\<close>

definition startsWith :: "string \<Rightarrow> string \<Rightarrow> bool" where
  "startsWith s p = prefix p s"

fun str_includes :: "string \<Rightarrow> string \<Rightarrow> bool" where
  "str_includes [] sub = (sub = [])"
| "str_includes (c # cs) sub = (prefix sub (c # cs) \<or> str_includes cs sub)"

subsection \<open>Requests, responses and the cache store\<close>

text \<open>
  A request as the listeners read it: \<open>request.url\<close> (an absolute, serialised URL, so
  that \<open>new URL(request.url).href\<close> is the same string), \<open>request.method\<close> and
  \<open>request.headers\<close>, the header list of names and values.  \<open>headers.get(name)\<close>
  compares names without regard to the case of ASCII letters and joins the values of a
  repeated header with a comma and a space; it is \<open>null\<close> (\<open>None\<close>) for a header the
  request does not carry.
\<close>

record request =
  url :: string
  request_method :: string
  mode :: string
  headers :: "(string \<times> string) list"

definition lower_char :: "char \<Rightarrow> char" where
  "lower_char c =
     (if 65 \<le> (of_char c :: nat) \<and> (of_char c :: nat) \<le> 90 then char_of (of_char c + 32 :: nat)
      else c)"

fun join_values :: "string list \<Rightarrow> string" where
  "join_values [] = []"
| "join_values [v] = v"
| "join_values (v # vs) = v @ '', '' @ join_values vs"

definition headers_get :: "(string \<times> string) list \<Rightarrow> string \<Rightarrow> string option" where
  "headers_get hs name =
     (case map snd (filter (\<lambda>h. map lower_char (fst h) = map lower_char name) hs) of
        [] \<Rightarrow> None
      | v # vs \<Rightarrow> Some (join_values (v # vs)))"

datatype response_type = Basic | Cors | Default | Error | Opaque | OpaqueRedirect

record response =
  status :: nat
  type :: response_type
  response_headers :: "(string \<times> string) list"
  body :: string

text \<open>
  The cache store (\<open>caches\<close>): named caches in creation order, each a list of stored
  request/response pairs.  A stored entry answers a request for the same URL string;
  the host's matching also ignores a fragment and honours a stored \<open>Vary\<close> header, which
  is not embedded.
\<close>

type_synonym cache = "(request \<times> response) list"
type_synonym cache_storage = "(string \<times> cache) list"

definition cache_match :: "cache \<Rightarrow> request \<Rightarrow> response option" where
  "cache_match c r = map_option snd (find (\<lambda>e. url (fst e) = url r) c)"

fun storage_match :: "cache_storage \<Rightarrow> request \<Rightarrow> response option" where
  "storage_match [] r = None"
| "storage_match ((name, c) # cs) r =
     (case cache_match c r of Some resp \<Rightarrow> Some resp | None \<Rightarrow> storage_match cs r)"

definition storage_keys :: "cache_storage \<Rightarrow> string list" where
  "storage_keys cs = map fst cs"

definition storage_open :: "string \<Rightarrow> cache_storage \<Rightarrow> cache_storage" where
  "storage_open name cs = (if name \<in> set (storage_keys cs) then cs else cs @ [(name, [])])"

definition storage_delete :: "string \<Rightarrow> cache_storage \<Rightarrow> cache_storage" where
  "storage_delete name cs = filter (\<lambda>e. fst e \<noteq> name) cs"

definition cache_put_entry :: "request \<Rightarrow> response \<Rightarrow> cache \<Rightarrow> cache" where
  "cache_put_entry r resp c = filter (\<lambda>e. url (fst e) \<noteq> url r) c @ [(r, resp)]"

definition storage_put :: "string \<Rightarrow> request \<Rightarrow> response \<Rightarrow> cache_storage \<Rightarrow> cache_storage" where
  "storage_put name r resp cs =
     map (\<lambda>e. if fst e = name then (fst e, cache_put_entry r resp (snd e)) else e) cs"

subsection \<open>The worker's constants\<close>

definition CACHE_NAME :: string where
  "CACHE_NAME = ''visual-mind-ai-v1.0.0''"

definition RUNTIME_CACHE :: string where
  "RUNTIME_CACHE = ''visual-mind-runtime-v1.0.0''"


definition NO_CACHE_URLS :: "string list" where
  "NO_CACHE_URLS = [''https://api.anthropic.com'']"

text \<open>
  The body of the synthesized offline page, line by line as the template literal of the
  source has it (bytes of its UTF-8 encoding; the lines are joined by line feeds).
\<close>

definition OFFLINE_PAGE_LINES :: "string list" where
  "OFFLINE_PAGE_LINES = [
     ''<!DOCTYPE html>'',
     ''                <html lang='' @ [CHR 0x22] @ ''es'' @ [CHR 0x22] @ ''>'',
     ''                <head>'',
     ''                  <meta charset='' @ [CHR 0x22] @ ''UTF-8'' @ [CHR 0x22] @ ''>'',
     ''                  <meta name='' @ [CHR 0x22] @ ''viewport'' @ [CHR 0x22] @ '' content='' @ [CHR 0x22] @ ''width=device-width, initial-scale=1.0'' @ [CHR 0x22] @ ''>'',
     ''                  <title>Visual Mind AI - Sin Conexi'' @ [CHR 0xC3] @ [CHR 0xB3] @ ''n</title>'',
     ''                  <style>'',
     ''                    body {'',
     ''                      font-family: system-ui, -apple-system, sans-serif;'',
     ''                      display: flex;'',
     ''                      align-items: center;'',
     ''                      justify-content: center;'',
     ''                      min-height: 100vh;'',
     ''                      margin: 0;'',
     ''                      background: linear-gradient(135deg, #1a1a2e 0%, #16213e 100%);'',
     ''                      color: white;'',
     ''                      text-align: center;'',
     ''                      padding: 20px;'',
     ''                    }'',
     ''                    .container {'',
     ''                      max-width: 400px;'',
     ''                    }'',
     ''                    h1 {'',
     ''                      font-size: 3em;'',
     ''                      margin: 0 0 20px 0;'',
     ''                    }'',
     ''                    p {'',
     ''                      font-size: 1.2em;'',
     ''                      margin: 10px 0;'',
     ''                      color: #94a3b8;'',
     ''                    }'',
     ''                    button {'',
     ''                      margin-top: 30px;'',
     ''                      padding: 15px 30px;'',
     ''                      font-size: 1em;'',
     ''                      background: #22d3ee;'',
     ''                      color: #0c1e3d;'',
     ''                      border: none;'',
     ''                      border-radius: 10px;'',
     ''                      cursor: pointer;'',
     ''                      font-weight: bold;'',
     ''                    }'',
     ''                    button:hover {'',
     ''                      background: #06b6d4;'',
     ''                    }'',
     ''                  </style>'',
     ''                </head>'',
     ''                <body>'',
     ''                  <div class='' @ [CHR 0x22] @ ''container'' @ [CHR 0x22] @ ''>'',
     ''                    <h1>'' @ [CHR 0xE2] @ [CHR 0x9A] @ [CHR 0xA0] @ [CHR 0xEF] @ [CHR 0xB8] @ [CHR 0x8F] @ ''</h1>'',
     ''                    <h2>Sin Conexi'' @ [CHR 0xC3] @ [CHR 0xB3] @ ''n</h2>'',
     ''                    <p>Visual Mind AI requiere conexi'' @ [CHR 0xC3] @ [CHR 0xB3] @ ''n a internet para funcionar completamente.</p>'',
     ''                    <p>Verifica tu conexi'' @ [CHR 0xC3] @ [CHR 0xB3] @ ''n e intenta nuevamente.</p>'',
     ''                    <button onclick='' @ [CHR 0x22] @ ''location.reload()'' @ [CHR 0x22] @ ''>Reintentar</button>'',
     ''                  </div>'',
     ''                </body>'',
     ''                </html>'']"

fun join_lines :: "string list \<Rightarrow> string" where
  "join_lines [] = []"
| "join_lines [l] = l"
| "join_lines (l # ls) = l @ CHR 0x0A # join_lines ls"

text \<open>
  \<open>new Response(page, { headers: { 'Content-Type': 'text/html' } })\<close> and
  \<open>new Response('Service Unavailable', { status: 503 })\<close>: the status defaults to 200,
  the type of a constructed response is \<open>default\<close>, and a text body without a content
  type of its own is given \<open>text/plain;charset=UTF-8\<close>.
\<close>

definition offline_response :: response where
  "offline_response =
     \<lparr>status = 200, type = Default,
      response_headers = [(''Content-Type'', ''text/html'')],
      body = join_lines OFFLINE_PAGE_LINES\<rparr>"

definition unavailable_response :: response where
  "unavailable_response =
     \<lparr>status = 503, type = Default,
      response_headers = [(''content-type'', ''text/plain;charset=UTF-8'')],
      body = ''Service Unavailable''\<rparr>"

section \<open>The host\<close>

text \<open>
  Every call a listener makes on the host, logged in the order made.  Console output is
  not logged.
\<close>

datatype call =
    Fetch request
  | CachesOpen string
  | CachesKeys
  | CachesDelete string
  | CachesMatch request
  | CachePut string request response
  | CacheAddAll string "request list"
  | SkipWaiting
  | ClientsClaim
  | ClientsMatchAll
  | PostMessage string jsval
  | ShowNotification jsval jsval

text \<open>
  What the host answers.  \<open>network r\<close> is the response \<open>fetch(r)\<close> resolves with, or
  \<open>None\<close> when it rejects.  The cache operations whose rejection the source has a
  handler for, or drops, can reject, by name of the cache: \<open>caches.open\<close> and
  \<open>cache.put\<close>; \<open>cache.addAll\<close> rejects as the network makes it.  \<open>caches.keys\<close>,
  \<open>caches.delete\<close> and \<open>caches.match\<close> resolve.  \<open>clients\<close> are the clients that
  \<open>clients.matchAll()\<close> finds.
\<close>

record host =
  network :: "request \<Rightarrow> response option"
  open_rejects :: "string \<Rightarrow> bool"
  put_rejects :: "string \<Rightarrow> bool"
  clients :: "string list"

text \<open>The state a listener runs in: the cache store and the log of calls.\<close>

record world =
  storage :: cache_storage
  calls :: "call list"

definition logged :: "call \<Rightarrow> world \<Rightarrow> world" where
  "logged c w = w\<lparr>calls := calls w @ [c]\<rparr>"

subsection \<open>Promises\<close>

text \<open>
  A promise chain is run to its settlement: from a state it gives the settlement
  (\<open>Inl\<close> a rejection, \<open>Inr\<close> the value) and the state reached.  \<open>then_p\<close> is
  \<open>.then(f)\<close>: a rejection skips \<open>f\<close>, and a rejection of \<open>f\<close> is the chain's.
  \<open>catch_p\<close> is \<open>.catch(f)\<close>.  \<open>floating\<close> is a promise that is started and whose
  settlement nothing waits for or reads: its effects happen, its rejection is lost.
\<close>

type_synonym 'a promise = "world \<Rightarrow> (js_error + 'a) \<times> world"

definition resolve :: "'a \<Rightarrow> 'a promise" where
  "resolve a = (\<lambda>w. (Inr a, w))"

definition reject :: "js_error \<Rightarrow> 'a promise" where
  "reject e = (\<lambda>w. (Inl e, w))"

definition then_p :: "'a promise \<Rightarrow> ('a \<Rightarrow> 'b promise) \<Rightarrow> 'b promise" where
  "then_p p f = (\<lambda>w. case p w of (Inl e, w') \<Rightarrow> (Inl e, w') | (Inr a, w') \<Rightarrow> f a w')"

definition catch_p :: "'a promise \<Rightarrow> (js_error \<Rightarrow> 'a promise) \<Rightarrow> 'a promise" where
  "catch_p p f = (\<lambda>w. case p w of (Inl e, w') \<Rightarrow> f e w' | (Inr a, w') \<Rightarrow> (Inr a, w'))"

definition floating :: "'a promise \<Rightarrow> unit promise" where
  "floating p = (\<lambda>w. (Inr (), snd (p w)))"

text \<open>
  \<open>Promise.all\<close> over promises already started: each runs, in order; the result is the
  list of values, or the first rejection.
\<close>

fun promise_all :: "'a promise list \<Rightarrow> 'a list promise" where
  "promise_all [] = resolve []"
| "promise_all (p # ps) =
     (\<lambda>w. case p w of (r, w') \<Rightarrow>
        (case promise_all ps w' of (rs, w'') \<Rightarrow>
           (case r of
              Inl e \<Rightarrow> (Inl e, w'')
            | Inr a \<Rightarrow> (case rs of Inl e \<Rightarrow> (Inl e, w'') | Inr as \<Rightarrow> (Inr (a # as), w'')))))"

subsection \<open>Host calls\<close>

definition fetch :: "host \<Rightarrow> request \<Rightarrow> response promise" where
  "fetch h r =
     (\<lambda>w. (case network h r of None \<Rightarrow> Inl NetworkError | Some resp \<Rightarrow> Inr resp,
            logged (Fetch r) w))"

text \<open>\<open>caches.open(name)\<close> creates the cache when there is none; the handle is its name.\<close>

definition caches_open :: "host \<Rightarrow> string \<Rightarrow> string promise" where
  "caches_open h name =
     (\<lambda>w. if open_rejects h name then (Inl CacheError, logged (CachesOpen name) w)
           else (Inr name, (logged (CachesOpen name) w)\<lparr>storage := storage_open name (storage w)\<rparr>))"

definition cache_put :: "host \<Rightarrow> string \<Rightarrow> request \<Rightarrow> response \<Rightarrow> unit promise" where
  "cache_put h cache r resp =
     (\<lambda>w. if put_rejects h cache then (Inl CacheError, logged (CachePut cache r resp) w)
           else (Inr (),
                 (logged (CachePut cache r resp) w)\<lparr>storage := storage_put cache r resp (storage w)\<rparr>))"

definition caches_match :: "request \<Rightarrow> response option promise" where
  "caches_match r = (\<lambda>w. (Inr (storage_match (storage w) r), logged (CachesMatch r) w))"

definition caches_keys :: "string list promise" where
  "caches_keys = (\<lambda>w. (Inr (storage_keys (storage w)), logged CachesKeys w))"

definition caches_delete :: "string \<Rightarrow> bool promise" where
  "caches_delete name =
     (\<lambda>w. (Inr (name \<in> set (storage_keys (storage w))),
            (logged (CachesDelete name) w)\<lparr>storage := storage_delete name (storage w)\<rparr>))"

definition skipWaiting :: "unit promise" where
  "skipWaiting = (\<lambda>w. (Inr (), logged SkipWaiting w))"

definition clients_claim :: "unit promise" where
  "clients_claim = (\<lambda>w. (Inr (), logged ClientsClaim w))"

definition clients_matchAll :: "host \<Rightarrow> string list promise" where
  "clients_matchAll h = (\<lambda>w. (Inr (clients h), logged ClientsMatchAll w))"

definition postMessage :: "string \<Rightarrow> jsval \<Rightarrow> unit promise" where
  "postMessage client msg = (\<lambda>w. (Inr (), logged (PostMessage client msg) w))"

definition showNotification :: "jsval \<Rightarrow> jsval \<Rightarrow> unit promise" where
  "showNotification title options = (\<lambda>w. (Inr (), logged (ShowNotification title options) w))"





section \<open>The listeners\<close>

text \<open>
  A listener's result is the settlement of the promise it hands to \<open>event.waitUntil\<close> or
  \<open>event.respondWith\<close>; \<open>Inl\<close> is that promise rejecting or the listener throwing.
\<close>

subsection \<open>install\<close>



subsection \<open>activate\<close>

definition activate_listener :: "unit promise" where
  "activate_listener =
     then_p
       (then_p caches_keys
          (\<lambda>cacheNames.
             promise_all
               (map (\<lambda>cacheName. caches_delete cacheName)
                  (filter (\<lambda>cacheName. cacheName \<noteq> CACHE_NAME \<and> cacheName \<noteq> RUNTIME_CACHE)
                     cacheNames))))
       (\<lambda>_. clients_claim)"

subsection \<open>fetch\<close>

text \<open>
  Where a response handed to \<open>respondWith\<close> comes from: the return statement that gave it.
\<close>

datatype origin = FromNetwork | FromCache | Synthesized

definition clone :: "response \<Rightarrow> response" where
  "clone resp = resp"

text \<open>
  The write into the runtime cache: \<open>caches.open(RUNTIME_CACHE)\<close>, then \<open>cache.put\<close>,
  whose promise the callback drops, with a \<open>.catch\<close> that only warns.
\<close>

definition cache_response :: "host \<Rightarrow> request \<Rightarrow> response \<Rightarrow> unit promise" where
  "cache_response h request responseToCache =
     catch_p
       (then_p (caches_open h RUNTIME_CACHE)
          (\<lambda>cache. floating (cache_put h cache request responseToCache)))
       (\<lambda>err. resolve ())"

text \<open>
  \<open>response && response.status === 200 && response.type !== 'opaque'\<close>; the response
  that \<open>fetch\<close> resolves with is an object, which is truthy.
\<close>

definition cacheable :: "response \<Rightarrow> bool" where
  "cacheable resp = (status resp = 200 \<and> type resp \<noteq> Opaque)"

text \<open>
  The \<open>.then\<close> callback: the write is started and not waited for.  The body of the
  response has not been read, so that \<open>clone\<close> does not throw, and the callback cannot
  reject.
\<close>

definition on_response :: "host \<Rightarrow> request \<Rightarrow> response \<Rightarrow> (origin \<times> response) promise" where
  "on_response h request resp =
     (if cacheable resp
      then then_p (floating (cache_response h request (clone resp)))
             (\<lambda>_. resolve (FromNetwork, resp))
      else resolve (FromNetwork, resp))"

text \<open>
  The \<open>.catch\<close> callback.  \<open>request.headers.get('accept')\<close> is \<open>null\<close> for a request
  without the header, and \<open>null.includes\<close> throws.
\<close>

definition on_network_failure :: "request \<Rightarrow> (origin \<times> response) promise" where
  "on_network_failure request =
     then_p (caches_match request)
       (\<lambda>cachedResponse.
          case cachedResponse of
            Some cached \<Rightarrow> resolve (FromCache, cached)
          | None \<Rightarrow>
              (case headers_get (headers request) ''accept'' of
                 None \<Rightarrow> reject TypeError
               | Some accept \<Rightarrow>
                   if str_includes accept ''text/html'' then resolve (Synthesized, offline_response)
                   else resolve (Synthesized, unavailable_response)))"

text \<open>
  The listener.  \<open>None\<close>: it returned without calling \<open>respondWith\<close>, and the browser
  handles the request.  \<open>Some s\<close>: it called \<open>respondWith\<close> with a promise that settles
  as \<open>s\<close>.
\<close>

definition denylisted :: "request \<Rightarrow> bool" where
  "denylisted request = list_ex (\<lambda>noCache. startsWith (url request) noCache) NO_CACHE_URLS"

definition fetch_listener ::
  "host \<Rightarrow> request \<Rightarrow> world \<Rightarrow> (js_error + origin \<times> response) option \<times> world" where
  "fetch_listener h request =
     (\<lambda>w. if denylisted request then (None, w)
           else if request_method request \<noteq> ''GET'' then (None, w)
           else (case catch_p (then_p (fetch h request) (on_response h request))
                        (\<lambda>err. on_network_failure request) w of
                   (s, w') \<Rightarrow> (Some s, w')))"

subsection \<open>message\<close>

text \<open>\<open>event.data && event.data.type === t\<close>.\<close>

definition has_type :: "jsval \<Rightarrow> string \<Rightarrow> bool" where
  "has_type data t = (if truthy data then prop_get data ''type'' = Inr (JStr t) else False)"

fun for_each :: "'a list \<Rightarrow> ('a \<Rightarrow> unit promise) \<Rightarrow> unit promise" where
  "for_each [] f = resolve ()"
| "for_each (x # xs) f = then_p (f x) (\<lambda>_. for_each xs f)"

definition CACHE_CLEARED :: jsval where
  "CACHE_CLEARED =
     JObj [(''type'', JStr ''CACHE_CLEARED''),
           (''message'', JStr (''Cach'' @ [CHR 0xC3, CHR 0xA9] @ '' limpiado exitosamente''))]"

definition clear_cache :: "host \<Rightarrow> unit promise" where
  "clear_cache h =
     then_p
       (then_p
          (then_p caches_keys
             (\<lambda>cacheNames. promise_all (map (\<lambda>cacheName. caches_delete cacheName) cacheNames)))
          (\<lambda>_. clients_matchAll h))
       (\<lambda>clients. for_each clients (\<lambda>client. postMessage client CACHE_CLEARED))"

definition message_listener :: "host \<Rightarrow> jsval \<Rightarrow> unit promise" where
  "message_listener h data =
     then_p (if has_type data ''SKIP_WAITING'' then floating skipWaiting else resolve ())
       (\<lambda>_. if has_type data ''CLEAR_CACHE'' then clear_cache h else resolve ())"

subsection \<open>push\<close>

text \<open>
  \<open>event.data\<close> is \<open>null\<close> (\<open>None\<close>) for a push without payload.  \<open>event.data.json()\<close>
  parses the payload's text: the value of a payload that is JSON, a \<open>SyntaxError\<close> for
  one that is not (\<open>PushMessageData None\<close>).
\<close>

datatype push_message_data = PushMessageData "jsval option"

fun json :: "push_message_data \<Rightarrow> js_error + jsval" where
  "json (PushMessageData None) = Inl SyntaxError"
| "json (PushMessageData (Some v)) = Inr v"

definition and_then :: "js_error + 'a \<Rightarrow> ('a \<Rightarrow> js_error + 'b) \<Rightarrow> js_error + 'b" where
  "and_then r f = (case r of Inl e \<Rightarrow> Inl e | Inr a \<Rightarrow> f a)"

text \<open>The title and the options object, read from \<open>data\<close> in the order of the source.\<close>

definition notification :: "jsval \<Rightarrow> js_error + jsval \<times> jsval" where
  "notification data =
     and_then (prop_get data ''title'') (\<lambda>t.
     and_then (prop_get data ''body'') (\<lambda>b.
     and_then (prop_get data ''tag'') (\<lambda>g.
     and_then (prop_get data ''requireInteraction'') (\<lambda>ri.
     and_then (prop_get data ''data'') (\<lambda>d.
       Inr (or_else t (JStr ''Visual Mind AI''),
            JObj [(''body'', or_else b (JStr (''Nueva notificaci'' @ [CHR 0xC3, CHR 0xB3] @ ''n''))),
                  (''icon'', JStr ''/icon-192.png''),
                  (''badge'', JStr ''/badge-72.png''),
                  (''vibrate'', JArr [JNum 200, JNum 100, JNum 200]),
                  (''tag'', or_else g (JStr ''default'')),
                  (''requireInteraction'', or_else ri (JBool False)),
                  (''data'', or_else d (JObj []))]))))))"

definition push_listener :: "push_message_data option \<Rightarrow> unit promise" where
  "push_listener event_data =
     (case (case event_data of None \<Rightarrow> Inr (JObj []) | Some pd \<Rightarrow> json pd) of
        Inl e \<Rightarrow> reject e
      | Inr data \<Rightarrow>
          (case notification data of
             Inl e \<Rightarrow> reject e
           | Inr (title, options) \<Rightarrow> showNotification title options))"

subsection \<open>sync, notificationclick\<close>

text \<open>
  The \<open>sync\<close> and \<open>notificationclick\<close> listeners touch neither the cache store nor any
  response; they are not embedded.
\<close>

section \<open>The push listener's fields, as stated\<close>

text \<open>
  A field of the notification in the words of the statement proved of the push listener
  below: the payload's value for the field when the payload is an object that holds a
  truthy value for it, the default otherwise.  \<open>notification\<close> above is what the source
  computes; the two are compared in \<open>notification_run\<close>.
\<close>

definition field_or :: "jsval \<Rightarrow> string \<Rightarrow> jsval \<Rightarrow> jsval" where
  "field_or data k d =
     (case data of
        JObj kvs \<Rightarrow> (case map_of kvs k of Some v \<Rightarrow> if truthy v then v else d | None \<Rightarrow> d)
      | _ \<Rightarrow> d)"

definition notification_options :: "jsval \<Rightarrow> jsval" where
  "notification_options data =
     JObj [(''body'', field_or data ''body'' (JStr (''Nueva notificaci'' @ [CHR 0xC3, CHR 0xB3] @ ''n''))),
           (''icon'', JStr ''/icon-192.png''),
           (''badge'', JStr ''/badge-72.png''),
           (''vibrate'', JArr [JNum 200, JNum 100, JNum 200]),
           (''tag'', field_or data ''tag'' (JStr ''default'')),
           (''requireInteraction'', field_or data ''requireInteraction'' (JBool False)),
           (''data'', field_or data ''data'' (JObj []))]"

section \<open>Example inputs\<close>

text \<open>
  A host whose network is down and one that answers every request with a page; a state
  with no cache and no call; a \<open>GET\<close> request for a JSON resource that carries no
  \<open>Accept\<close> header; a store that holds a cache of an older version; a push payload with
  an empty body.
\<close>

definition offline_host :: host where
  "offline_host = \<lparr>network = (\<lambda>r. None), open_rejects = (\<lambda>name. False),
                    put_rejects = (\<lambda>name. False), clients = []\<rparr>"

definition page_response :: response where
  "page_response = \<lparr>status = 200, type = Basic, response_headers = [], body = ''hi''\<rparr>"

definition online_host :: host where
  "online_host = offline_host\<lparr>network := (\<lambda>r. Some page_response)\<rparr>"

definition empty_world :: world where
  "empty_world = \<lparr>storage = [], calls = []\<rparr>"

definition data_request :: request where
  "data_request = \<lparr>url = ''https://example.com/data.json'', request_method = ''GET'',
                    mode = ''cors'', headers = []\<rparr>"

definition old_caches :: world where
  "old_caches =
     \<lparr>storage = [(''visual-mind-ai-v0.9.0'', []), (CACHE_NAME, []), (RUNTIME_CACHE, [])],
      calls = []\<rparr>"

definition push_payload :: jsval where
  "push_payload =
     JObj [(''title'', JStr ''Hi''), (''body'', JStr ''''), (''requireInteraction'', JBool True)]"

section \<open>Properties of the fetch listener\<close>

subsection \<open>What each branch of the promise chain does\<close>

lemma logged_simps [simp]:
  "calls (logged c w) = calls w @ [c]" "storage (logged c w) = storage w"
  by (simp_all add: logged_def)

lemma startsWith_append: "startsWith s p \<longleftrightarrow> (\<exists>rest. s = p @ rest)"
  by (auto simp: startsWith_def prefix_def)

lemma str_includes_sublist: "str_includes s sub \<longleftrightarrow> sublist sub s"
  by (induction s) (auto simp: sublist_Cons_right)

lemma denylisted_iff: "denylisted request \<longleftrightarrow> prefix ''https://api.anthropic.com'' (url request)"
  by (simp add: denylisted_def NO_CACHE_URLS_def startsWith_def)

lemma data_request_intercepted [simp]:
  "request_method data_request = ''GET''" "\<not> denylisted data_request"
  by (simp_all add: data_request_def denylisted_iff)

lemma cache_response_world:
  "snd (cache_response h request resp w) =
     (if open_rejects h RUNTIME_CACHE then logged (CachesOpen RUNTIME_CACHE) w
      else if put_rejects h RUNTIME_CACHE
      then (logged (CachePut RUNTIME_CACHE request resp) (logged (CachesOpen RUNTIME_CACHE) w))
             \<lparr>storage := storage_open RUNTIME_CACHE (storage w)\<rparr>
      else (logged (CachePut RUNTIME_CACHE request resp) (logged (CachesOpen RUNTIME_CACHE) w))
             \<lparr>storage := storage_put RUNTIME_CACHE request resp (storage_open RUNTIME_CACHE (storage w))\<rparr>)"
  by (simp add: cache_response_def catch_p_def then_p_def caches_open_def floating_def
      cache_put_def resolve_def logged_def)

lemma on_response_run:
  "on_response h request resp w =
     (Inr (FromNetwork, resp),
      if cacheable resp then snd (cache_response h request resp w) else w)"
  by (simp add: on_response_def then_p_def floating_def resolve_def clone_def)

lemma fetch_listener_resolved:
  assumes "request_method request = ''GET''" and "\<not> denylisted request"
    and "network h request = Some resp"
  shows "fetch_listener h request w =
           (Some (Inr (FromNetwork, resp)),
            if cacheable resp then snd (cache_response h request resp (logged (Fetch request) w))
            else logged (Fetch request) w)"
  using assms
  by (simp add: fetch_listener_def catch_p_def then_p_def fetch_def on_response_run)

lemma on_network_failure_run:
  "on_network_failure request w =
     (case storage_match (storage w) request of
        Some cached \<Rightarrow> Inr (FromCache, cached)
      | None \<Rightarrow>
          (case headers_get (headers request) ''accept'' of
             None \<Rightarrow> Inl TypeError
           | Some accept \<Rightarrow>
               if str_includes accept ''text/html'' then Inr (Synthesized, offline_response)
               else Inr (Synthesized, unavailable_response)),
      logged (CachesMatch request) w)"
  by (simp add: on_network_failure_def then_p_def caches_match_def resolve_def reject_def
      split: option.splits)

lemma fetch_listener_rejected:
  assumes "request_method request = ''GET''" and "\<not> denylisted request"
    and "network h request = None"
  shows "fetch_listener h request w =
           (Some (fst (on_network_failure request (logged (Fetch request) w))),
            logged (CachesMatch request) (logged (Fetch request) w))"
  using assms
  by (simp add: fetch_listener_def catch_p_def then_p_def fetch_def on_network_failure_run)

subsection \<open>The cache store\<close>

lemma map_of_storage_open:
  "map_of (storage_open n cs) m =
     (if m = n \<and> n \<notin> set (storage_keys cs) then Some [] else map_of cs m)"
proof (cases "n \<in> set (storage_keys cs)")
  case True
  then show ?thesis by (simp add: storage_open_def)
next
  case False
  then have "map_of cs n = None"
    by (simp add: storage_keys_def map_of_eq_None_iff)
  with False show ?thesis
    by (auto simp: storage_open_def map_add_def split: option.splits)
qed

lemma map_of_storage_put:
  "map_of (storage_put n r resp cs) m =
     (if m = n then map_option (cache_put_entry r resp) (map_of cs m) else map_of cs m)"
  by (induction cs) (auto simp: storage_put_def)

lemma cache_match_put: "cache_match (cache_put_entry r resp c) r = Some resp"
proof -
  have "find (\<lambda>e. url (fst e) = url r) (filter (\<lambda>e. url (fst e) \<noteq> url r) c @ [(r, resp)])
          = Some (r, resp)"
    by (induction c) auto
  then show ?thesis by (simp add: cache_match_def cache_put_entry_def)
qed

lemma runtime_written:
  "\<exists>c. map_of (storage_put RUNTIME_CACHE r resp (storage_open RUNTIME_CACHE cs)) RUNTIME_CACHE = Some c
       \<and> cache_match c r = Some resp"
  by (cases "map_of cs RUNTIME_CACHE")
     (auto simp: map_of_storage_put map_of_storage_open cache_match_put storage_keys_def
           map_of_eq_None_iff)

subsection \<open>Network first\<close>

text \<open>
  C1.  For a \<open>GET\<close> request whose URL is not denylisted, the first call of the listener is
  the network fetch.  When the fetch resolves, its response is what the listener responds
  with and no cache lookup is made.  When the fetch rejects, the one further call is the
  cache lookup, and a match is what the listener responds with.  A synthesized response
  is produced only when the fetch rejected and the lookup found nothing.
\<close>

theorem fetch_network_first:
  assumes "request_method request = ''GET''" and "\<not> denylisted request"
  shows "(case network h request of
            Some resp \<Rightarrow>
              fst (fetch_listener h request w) = Some (Inr (FromNetwork, resp)) \<and>
              (\<exists>writes. calls (snd (fetch_listener h request w)) = calls w @ Fetch request # writes \<and>
                        (\<forall>r. CachesMatch r \<notin> set writes))
          | None \<Rightarrow>
              calls (snd (fetch_listener h request w)) =
                calls w @ [Fetch request, CachesMatch request] \<and>
              (\<forall>cached. storage_match (storage w) request = Some cached \<longrightarrow>
                 fst (fetch_listener h request w) = Some (Inr (FromCache, cached)))) \<and>
         (\<forall>resp. fst (fetch_listener h request w) = Some (Inr (Synthesized, resp)) \<longrightarrow>
            network h request = None \<and> storage_match (storage w) request = None)"
proof (cases "network h request")
  case None
  with assms show ?thesis
    by (auto simp: fetch_listener_rejected on_network_failure_run split: option.splits)
next
  case (Some resp)
  with assms show ?thesis
    by (auto simp: fetch_listener_resolved cache_response_world)
qed

theorem fetch_network_first_witness:
  "fst (fetch_listener offline_host data_request
          \<lparr>storage = [(RUNTIME_CACHE, [(data_request, page_response)])], calls = []\<rparr>)
     = Some (Inr (FromCache, page_response)) \<and>
   calls (snd (fetch_listener offline_host data_request
          \<lparr>storage = [(RUNTIME_CACHE, [(data_request, page_response)])], calls = []\<rparr>))
     = [Fetch data_request, CachesMatch data_request]"
  using fetch_network_first [of data_request offline_host
      "\<lparr>storage = [(RUNTIME_CACHE, [(data_request, page_response)])], calls = []\<rparr>"]
  by (simp add: offline_host_def cache_match_def)

subsection \<open>The write into the runtime cache\<close>

text \<open>
  C3.  For an intercepted \<open>GET\<close> request whose fetch resolves with \<open>resp\<close>, the listener
  starts the write of a clone of \<open>resp\<close> into the cache \<open>visual-mind-runtime-v1.0.0\<close>
  exactly when \<open>resp\<close> has status 200 and a type other than opaque: it opens that cache,
  and its only further call can be the \<open>put\<close> of the request with the clone into it.  The
  clone is stored there, and that cache then answers the request with \<open>resp\<close>, when the
  host lets both the open and the put through; when either rejects, no entry is stored.
  For any other status, or an opaque response, the listener makes no call but the fetch
  and the cache store is as it was.  In every case no cache of another name is changed.
\<close>

theorem runtime_cache_write:
  assumes "request_method request = ''GET''" and "\<not> denylisted request"
    and "network h request = Some resp"
  shows "let w' = snd (fetch_listener h request w);
             wanted = (status resp = 200 \<and> type resp \<noteq> Opaque);
             granted = (\<not> open_rejects h RUNTIME_CACHE \<and> \<not> put_rejects h RUNTIME_CACHE) in
           (wanted \<longrightarrow>
              (\<exists>rest. calls w' = calls w @ [Fetch request, CachesOpen RUNTIME_CACHE] @ rest \<and>
                       set rest \<subseteq> {CachePut RUNTIME_CACHE request resp})) \<and>
           (wanted \<and> granted \<longrightarrow>
              storage w' = storage_put RUNTIME_CACHE request resp (storage_open RUNTIME_CACHE (storage w)) \<and>
              (\<exists>c. map_of (storage w') RUNTIME_CACHE = Some c \<and> cache_match c request = Some resp)) \<and>
           (wanted \<and> \<not> granted \<longrightarrow>
              storage w' = (if open_rejects h RUNTIME_CACHE then storage w
                            else storage_open RUNTIME_CACHE (storage w))) \<and>
           (\<not> wanted \<longrightarrow> calls w' = calls w @ [Fetch request] \<and> storage w' = storage w) \<and>
           (\<forall>name. name \<noteq> RUNTIME_CACHE \<longrightarrow> map_of (storage w') name = map_of (storage w) name)"
proof -
  have run: "snd (fetch_listener h request w) =
      (if cacheable resp then snd (cache_response h request resp (logged (Fetch request) w))
       else logged (Fetch request) w)"
    using assms by (simp add: fetch_listener_resolved)
  show ?thesis
  proof (cases "cacheable resp")
    case False
    with run show ?thesis by (auto simp: cacheable_def Let_def)
  next
    case True
    then have c: "status resp = 200" "type resp \<noteq> Opaque" by (simp_all add: cacheable_def)
    from True run have w': "snd (fetch_listener h request w) =
        snd (cache_response h request resp (logged (Fetch request) w))" by simp
    show ?thesis
      unfolding Let_def w' cache_response_world
      using c runtime_written [of request resp "storage w"]
      by (auto simp: map_of_storage_put map_of_storage_open)
  qed
qed

theorem runtime_cache_write_witness:
  "map_of (storage (snd (fetch_listener online_host data_request empty_world))) RUNTIME_CACHE
     = Some [(data_request, page_response)] \<and>
   calls (snd (fetch_listener online_host data_request empty_world))
     = [Fetch data_request, CachesOpen RUNTIME_CACHE, CachePut RUNTIME_CACHE data_request page_response] \<and>
   snd (fetch_listener (online_host\<lparr>network := (\<lambda>r. Some unavailable_response)\<rparr>) data_request empty_world)
     = \<lparr>storage = [], calls = [Fetch data_request]\<rparr>"
  using runtime_cache_write [of data_request online_host page_response empty_world]
    runtime_cache_write [of data_request "online_host\<lparr>network := (\<lambda>r. Some unavailable_response)\<rparr>"
      unavailable_response empty_world]
  by (simp add: online_host_def offline_host_def page_response_def unavailable_response_def
      empty_world_def fetch_listener_resolved cache_response_world cacheable_def
      storage_open_def storage_put_def storage_keys_def cache_put_entry_def logged_def)

text \<open>
  A response of status 200 and type \<open>basic\<close> whose clone is not written: the host rejects
  the open of the runtime cache, the \<open>.catch\<close> of the write warns, and the cache store
  stays empty.  So C3 needs the open and the put to succeed.
\<close>

theorem runtime_cache_not_written:
  "status page_response = 200 \<and> type page_response \<noteq> Opaque \<and>
   fetch_listener (online_host\<lparr>open_rejects := (\<lambda>name. True)\<rparr>) data_request empty_world =
     (Some (Inr (FromNetwork, page_response)),
      \<lparr>storage = [], calls = [Fetch data_request, CachesOpen RUNTIME_CACHE]\<rparr>)"
  by (simp add: fetch_listener_resolved cache_response_world cacheable_def online_host_def
      offline_host_def page_response_def empty_world_def logged_def)

text \<open>
  C8.  For an intercepted \<open>GET\<close> request whose fetch resolves with a response of status
  200 and a type other than opaque, the listener responds with that response, whether
  opening the runtime cache and the put into it succeed or reject.
\<close>

theorem network_response_despite_cache_failure:
  assumes "request_method request = ''GET''" and "\<not> denylisted request"
    and "network h request = Some resp" and "status resp = 200" and "type resp \<noteq> Opaque"
  shows "fst (fetch_listener (h\<lparr>open_rejects := opens, put_rejects := puts\<rparr>) request w)
           = Some (Inr (FromNetwork, resp))"
  using assms by (simp add: fetch_listener_resolved)

theorem network_response_despite_cache_failure_witness:
  "fst (fetch_listener (online_host\<lparr>open_rejects := (\<lambda>name. True), put_rejects := (\<lambda>name. True)\<rparr>)
          data_request empty_world) = Some (Inr (FromNetwork, page_response)) \<and>
   fst (fetch_listener (online_host\<lparr>open_rejects := (\<lambda>name. False), put_rejects := (\<lambda>name. True)\<rparr>)
          data_request empty_world) = Some (Inr (FromNetwork, page_response)) \<and>
   fst (fetch_listener (online_host\<lparr>open_rejects := (\<lambda>name. False), put_rejects := (\<lambda>name. False)\<rparr>)
          data_request empty_world) = Some (Inr (FromNetwork, page_response))"
  using network_response_despite_cache_failure [where request = data_request and h = online_host
      and resp = page_response and opens = "\<lambda>name. True" and puts = "\<lambda>name. True" and w = empty_world]
    network_response_despite_cache_failure [where request = data_request and h = online_host
      and resp = page_response and opens = "\<lambda>name. False" and puts = "\<lambda>name. True" and w = empty_world]
    network_response_despite_cache_failure [where request = data_request and h = online_host
      and resp = page_response and opens = "\<lambda>name. False" and puts = "\<lambda>name. False" and w = empty_world]
  by (simp add: online_host_def offline_host_def page_response_def)

subsection \<open>Requests the listener leaves to the browser\<close>

text \<open>
  C5.  The denylist has the one entry \<open>https://api.anthropic.com\<close>, and for a request
  whose URL starts with an entry of the denylist the listener returns without calling
  \<open>respondWith\<close>: it makes no call at all (no fetch, no cache lookup, no cache write) and
  the cache store is as it was.
\<close>

theorem denylisted_not_intercepted:
  assumes "noCache \<in> set NO_CACHE_URLS" and "startsWith (url request) noCache"
  shows "NO_CACHE_URLS = [''https://api.anthropic.com''] \<and> fetch_listener h request w = (None, w)"
  using assms by (auto simp: fetch_listener_def denylisted_def list_ex_iff NO_CACHE_URLS_def)

theorem denylisted_not_intercepted_witness:
  "fetch_listener online_host (data_request\<lparr>url := ''https://api.anthropic.com/v1/messages''\<rparr>) empty_world
     = (None, empty_world)"
  using denylisted_not_intercepted [of "''https://api.anthropic.com''"
      "data_request\<lparr>url := ''https://api.anthropic.com/v1/messages''\<rparr>" online_host empty_world]
  by (simp add: NO_CACHE_URLS_def startsWith_def)

text \<open>
  C10.  For a request whose method is not \<open>GET\<close> the listener returns without calling
  \<open>respondWith\<close>: it makes no call, reads and writes no cache, and the cache store is as
  it was.
\<close>

theorem non_get_not_intercepted:
  assumes "request_method request \<noteq> ''GET''"
  shows "fetch_listener h request w = (None, w)"
  using assms by (simp add: fetch_listener_def)

theorem non_get_not_intercepted_witness:
  "fetch_listener online_host (data_request\<lparr>request_method := ''POST''\<rparr>) empty_world = (None, empty_world)"
  using non_get_not_intercepted [of "data_request\<lparr>request_method := ''POST''\<rparr>" online_host empty_world]
  by simp

subsection \<open>Network down and nothing cached\<close>

text \<open>
  What the listener responds with when the fetch rejects and no cache has a match: the
  offline page or the 503 response for a request that carries an \<open>Accept\<close> header, and a
  rejection with a \<open>TypeError\<close> for one that carries none.
\<close>

lemma fallback_pair:
  assumes "request_method request = ''GET''" and "\<not> denylisted request"
    and "network h request = None" and "storage_match (storage w) request = None"
  shows "fst (fetch_listener h request w) =
           (case headers_get (headers request) ''accept'' of
              None \<Rightarrow> Some (Inl TypeError)
            | Some accept \<Rightarrow>
                Some (Inr (Synthesized,
                  if str_includes accept ''text/html'' then offline_response else unavailable_response)))"
  using assms
  by (simp add: fetch_listener_rejected on_network_failure_run split: option.splits)

text \<open>
  C2.  The statement is that, with the network down and no match in a cache, the listener
  answers with the offline page or the 503 response and never throws, also for a request
  without an \<open>Accept\<close> header.  On such a request the promise handed to \<open>respondWith\<close>
  rejects with a \<open>TypeError\<close> after the fetch and the cache lookup, and no response is
  produced.
\<close>

theorem fallback_without_accept_throws:
  "fetch_listener offline_host data_request empty_world =
     (Some (Inl TypeError), \<lparr>storage = [], calls = [Fetch data_request, CachesMatch data_request]\<rparr>)"
  by (simp add: fetch_listener_rejected on_network_failure_run offline_host_def empty_world_def
      headers_get_def logged_def) (simp add: data_request_def)

section \<open>Properties of the lifecycle and message listeners\<close>

subsection \<open>Deleting caches\<close>

lemma delete_all:
  "\<exists>bs. promise_all (map (\<lambda>cacheName. caches_delete cacheName) ns) w =
     (Inr bs, w\<lparr>storage := filter (\<lambda>e. fst e \<notin> set ns) (storage w),
              calls := calls w @ map CachesDelete ns\<rparr>)"
proof (induction ns arbitrary: w)
  case Nil
  then show ?case by (simp add: resolve_def)
next
  case (Cons n ns)
  let ?w1 = "(logged (CachesDelete n) w)\<lparr>storage := storage_delete n (storage w)\<rparr>"
  from Cons [of ?w1] obtain bs where
    "promise_all (map (\<lambda>cacheName. caches_delete cacheName) ns) ?w1 =
       (Inr bs, ?w1\<lparr>storage := filter (\<lambda>e. fst e \<notin> set ns) (storage ?w1),
                   calls := calls ?w1 @ map CachesDelete ns\<rparr>)"
    by blast
  then show ?case
    by (simp add: caches_delete_def storage_delete_def logged_def conj_commute)
qed

text \<open>
  C4.  On activate the listener deletes the caches whose name is neither
  \<open>visual-mind-ai-v1.0.0\<close> nor \<open>visual-mind-runtime-v1.0.0\<close>, one \<open>delete\<close> for each such
  name among the keys and for no other name; the caches of those two names are what
  remains in the store, with their contents, and the listener then claims the clients.
\<close>

theorem activate_deletes_stale_caches:
  "activate_listener w =
     (Inr (),
      w\<lparr>storage := filter (\<lambda>e. fst e = CACHE_NAME \<or> fst e = RUNTIME_CACHE) (storage w),
        calls := calls w @ CachesKeys #
                 map CachesDelete
                   (filter (\<lambda>name. name \<noteq> CACHE_NAME \<and> name \<noteq> RUNTIME_CACHE)
                      (storage_keys (storage w))) @
                 [ClientsClaim]\<rparr>)"
proof -
  let ?stale = "filter (\<lambda>name. name \<noteq> CACHE_NAME \<and> name \<noteq> RUNTIME_CACHE) (storage_keys (storage w))"
  obtain bs where del:
    "promise_all (map (\<lambda>cacheName. caches_delete cacheName) ?stale) (logged CachesKeys w) =
       (Inr bs, (logged CachesKeys w)\<lparr>storage := filter (\<lambda>e. fst e \<notin> set ?stale) (storage (logged CachesKeys w)),
                calls := calls (logged CachesKeys w) @ map CachesDelete ?stale\<rparr>)"
    using delete_all by blast
  have keep: "filter (\<lambda>e. fst e \<notin> set ?stale) (storage w) =
              filter (\<lambda>e. fst e = CACHE_NAME \<or> fst e = RUNTIME_CACHE) (storage w)"
    by (rule filter_cong) (auto simp: storage_keys_def)
  show ?thesis
    using del keep
    by (simp add: activate_listener_def then_p_def caches_keys_def clients_claim_def logged_def)
qed

theorem activate_deletes_stale_caches_witness:
  "activate_listener old_caches =
     (Inr (),
      \<lparr>storage = [(CACHE_NAME, []), (RUNTIME_CACHE, [])],
       calls = [CachesKeys, CachesDelete ''visual-mind-ai-v0.9.0'', ClientsClaim]\<rparr>)"
  using activate_deletes_stale_caches [of old_caches]
  by (simp add: old_caches_def storage_keys_def CACHE_NAME_def RUNTIME_CACHE_def)

subsection \<open>Messages\<close>

lemma post_all:
  "for_each cs (\<lambda>client. postMessage client m) w =
     (Inr (), w\<lparr>calls := calls w @ map (\<lambda>client. PostMessage client m) cs\<rparr>)"
  by (induction cs arbitrary: w) (simp_all add: resolve_def then_p_def postMessage_def logged_def)

lemma clear_cache_run:
  "clear_cache h w =
     (Inr (),
      w\<lparr>storage := [],
        calls := calls w @ CachesKeys # map CachesDelete (storage_keys (storage w)) @
                 ClientsMatchAll # map (\<lambda>client. PostMessage client CACHE_CLEARED) (clients h)\<rparr>)"
proof -
  let ?names = "storage_keys (storage w)"
  obtain bs where del:
    "promise_all (map (\<lambda>cacheName. caches_delete cacheName) ?names) (logged CachesKeys w) =
       (Inr bs, (logged CachesKeys w)\<lparr>storage := filter (\<lambda>e. fst e \<notin> set ?names) (storage (logged CachesKeys w)),
                calls := calls (logged CachesKeys w) @ map CachesDelete ?names\<rparr>)"
    using delete_all by blast
  have none: "filter (\<lambda>e. fst e \<notin> set ?names) (storage w) = []"
    by (simp add: storage_keys_def filter_empty_conv)
  show ?thesis
    using del none
    by (simp add: clear_cache_def then_p_def caches_keys_def clients_matchAll_def post_all logged_def)
qed

text \<open>A message has type \<open>t\<close> when its data is an object whose \<open>type\<close> is the string \<open>t\<close>.\<close>

lemma has_type_iff:
  "has_type data t \<longleftrightarrow> (\<exists>kvs. data = JObj kvs \<and> map_of kvs ''type'' = Some (JStr t))"
  by (cases data) (auto simp: has_type_def split: option.splits)

text \<open>
  C6.  A message of type \<open>SKIP_WAITING\<close> makes the listener call \<open>skipWaiting\<close> and
  nothing else.  A message of type \<open>CLEAR_CACHE\<close> makes it delete every cache among the
  keys, the two current ones included, so that the store is left empty, and then tell each
  client.  On every other message the listener makes no call and the cache store is as it
  was.
\<close>

theorem message_commands:
  "(has_type data ''SKIP_WAITING'' \<longrightarrow>
      message_listener h data w = (Inr (), logged SkipWaiting w)) \<and>
   (has_type data ''CLEAR_CACHE'' \<longrightarrow>
      message_listener h data w =
        (Inr (),
         w\<lparr>storage := [],
           calls := calls w @ CachesKeys # map CachesDelete (storage_keys (storage w)) @
                    ClientsMatchAll # map (\<lambda>client. PostMessage client CACHE_CLEARED) (clients h)\<rparr>)) \<and>
   (\<not> has_type data ''SKIP_WAITING'' \<and> \<not> has_type data ''CLEAR_CACHE'' \<longrightarrow>
      message_listener h data w = (Inr (), w))"
proof -
  have excl: "\<not> (has_type data ''SKIP_WAITING'' \<and> has_type data ''CLEAR_CACHE'')"
    by (auto simp: has_type_iff)
  show ?thesis
    using excl
    by (auto simp: message_listener_def then_p_def floating_def skipWaiting_def resolve_def
        clear_cache_run)
qed

theorem message_commands_witness:
  "message_listener (offline_host\<lparr>clients := [''page'']\<rparr>) (JObj [(''type'', JStr ''CLEAR_CACHE'')])
     old_caches =
     (Inr (),
      \<lparr>storage = [],
       calls = [CachesKeys, CachesDelete ''visual-mind-ai-v0.9.0'', CachesDelete CACHE_NAME,
                CachesDelete RUNTIME_CACHE, ClientsMatchAll, PostMessage ''page'' CACHE_CLEARED]\<rparr>) \<and>
   message_listener offline_host (JObj [(''type'', JStr ''SKIP_WAITING'')]) old_caches =
     (Inr (), old_caches\<lparr>calls := [SkipWaiting]\<rparr>) \<and>
   message_listener offline_host (JObj [(''type'', JStr ''RELOAD'')]) old_caches =
     (Inr (), old_caches)"
  using message_commands [of "JObj [(''type'', JStr ''CLEAR_CACHE'')]" "offline_host\<lparr>clients := [''page'']\<rparr>"
      old_caches]
    message_commands [of "JObj [(''type'', JStr ''SKIP_WAITING'')]" offline_host old_caches]
    message_commands [of "JObj [(''type'', JStr ''RELOAD'')]" offline_host old_caches]
  by (simp add: has_type_def storage_keys_def offline_host_def logged_def old_caches_def)

subsection \<open>Installation\<close>



subsection \<open>What the bulk fetch stores\<close>











section \<open>Properties of the push listener\<close>

lemma prop_get_or_else:
  "data \<noteq> JNull \<Longrightarrow> data \<noteq> JUndefined \<Longrightarrow>
     \<exists>v. prop_get data k = Inr v \<and> or_else v d = field_or data k d"
  by (cases data) (auto simp: or_else_def field_or_def split: option.splits)

text \<open>What the source computes is what the statement words, on every value but \<open>null\<close>.\<close>

lemma notification_run:
  assumes "data \<noteq> JNull" and "data \<noteq> JUndefined"
  shows "notification data =
           Inr (field_or data ''title'' (JStr ''Visual Mind AI''), notification_options data)"
proof -
  note p = prop_get_or_else [OF assms]
  obtain t where t: "prop_get data ''title'' = Inr t"
      "or_else t (JStr ''Visual Mind AI'') = field_or data ''title'' (JStr ''Visual Mind AI'')"
    using p by blast
  obtain b where b: "prop_get data ''body'' = Inr b"
      "or_else b (JStr (''Nueva notificaci'' @ [CHR 0xC3, CHR 0xB3] @ ''n'')) =
       field_or data ''body'' (JStr (''Nueva notificaci'' @ [CHR 0xC3, CHR 0xB3] @ ''n''))"
    using p by blast
  obtain g where g: "prop_get data ''tag'' = Inr g"
      "or_else g (JStr ''default'') = field_or data ''tag'' (JStr ''default'')"
    using p by blast
  obtain ri where ri: "prop_get data ''requireInteraction'' = Inr ri"
      "or_else ri (JBool False) = field_or data ''requireInteraction'' (JBool False)"
    using p by blast
  obtain d where d: "prop_get data ''data'' = Inr d"
      "or_else d (JObj []) = field_or data ''data'' (JObj [])"
    using p by blast
  show ?thesis
    unfolding notification_def notification_options_def and_then_def
    using t b g ri d by simp
qed

lemma push_null_payload_throws:
  "push_listener (Some (PushMessageData (Some JNull))) w = (Inl TypeError, w)"
  by (simp add: push_listener_def notification_def and_then_def reject_def)

text \<open>
  C9.  For a push event without payload, and for one whose payload is JSON for a value
  other than \<open>null\<close>, the listener shows exactly one notification.  Each of the title,
  body, tag, requireInteraction and data is the payload's value when the payload is an
  object that holds a truthy value for it, and otherwise the default: \<open>Visual Mind AI\<close>,
  \<open>Nueva notificacion\<close> (its last o accented), \<open>default\<close>, \<open>false\<close> and an empty object.
\<close>

theorem push_shows_notification:
  "push_listener None w =
     (Inr (), logged (ShowNotification (JStr ''Visual Mind AI'') (notification_options (JObj []))) w) \<and>
   (data \<noteq> JNull \<and> data \<noteq> JUndefined \<longrightarrow>
      push_listener (Some (PushMessageData (Some data))) w =
        (Inr (),
         logged (ShowNotification (field_or data ''title'' (JStr ''Visual Mind AI''))
                   (notification_options data)) w))"
proof -
  have "notification (JObj []) = Inr (JStr ''Visual Mind AI'', notification_options (JObj []))"
    using notification_run [of "JObj []"] by (simp add: field_or_def)
  then show ?thesis
    by (simp add: push_listener_def notification_run showNotification_def)
qed

theorem push_shows_notification_witness:
  "push_listener (Some (PushMessageData (Some push_payload))) empty_world =
     (Inr (),
      \<lparr>storage = [],
       calls = [ShowNotification (JStr ''Hi'')
                  (JObj [(''body'', JStr (''Nueva notificaci'' @ [CHR 0xC3, CHR 0xB3] @ ''n'')),
                         (''icon'', JStr ''/icon-192.png''),
                         (''badge'', JStr ''/badge-72.png''),
                         (''vibrate'', JArr [JNum 200, JNum 100, JNum 200]),
                         (''tag'', JStr ''default''),
                         (''requireInteraction'', JBool True),
                         (''data'', JObj [])])]\<rparr>)"
  using push_shows_notification [of empty_world push_payload]
  by (simp add: push_payload_def notification_options_def field_or_def empty_world_def logged_def)

text \<open>
  C9 does not hold of every push event, nor of every field that is present.  On a payload
  that is not JSON the listener throws and shows no notification.  On a payload whose
  title is the empty string, a title that is present, the notification is titled with the
  default.
\<close>

theorem push_claim_fails:
  "fst (push_listener (Some (PushMessageData None)) empty_world) = Inl SyntaxError \<and>
   calls (snd (push_listener (Some (PushMessageData None)) empty_world)) = [] \<and>
   calls (snd (push_listener (Some (PushMessageData (Some (JObj [(''title'', JStr '''')])))) empty_world)) =
     [ShowNotification (JStr ''Visual Mind AI'') (notification_options (JObj [(''title'', JStr '''')]))]"
  by (simp add: push_listener_def reject_def empty_world_def notification_run showNotification_def
      field_or_def)

end
